theory Spec2Isabelle
  imports Complex_Main
begin

section \<open>Stock ledger (src/services/stock.service.ts)\<close>

text \<open>
  Product documents are keyed by the string form of their ObjectId; a product id in a
  request is that 24-digit text, as \<open>item.product.toString()\<close> gives it (any other text
  makes \<open>new Types.ObjectId\<close> throw, which is not modelled).  Stock levels and
  requested quantities are JavaScript numbers holding integers (the Product schema
  validates \<open>Number.isInteger(stock)\<close>, the quote schema \<open>Number.isInteger(quantity)\<close>);
  they are modelled as \<open>int\<close>, so a negative or zero quantity is still an input.
  Message texts are written without their Spanish accents.  The service's log lines and
  failures of the database connection itself are not modelled.
\<close>

type_synonym oid = string

record product =
  name :: string
  stock :: int
  isActive :: bool

type_synonym ProductCollection = "oid \<Rightarrow> product option"

record StockItem =
  productId :: oid
  quantity :: int

record validation_error =
  err_productId :: oid
  err_productName :: string
  requested :: int
  available :: int

record StockValidationResult =
  isValid :: bool
  validation_errors :: "validation_error list"

record operation_error =
  op_productId :: oid
  op_productName :: "string option"
  error :: string
  op_requested :: "int option"
  op_available :: "int option"

record updated_product =
  upd_productId :: oid
  upd_productName :: string
  previousStock :: int
  newStock :: int

record StockOperationResult =
  success :: bool
  message :: string
  errors :: "operation_error list option"
  updatedProducts :: "updated_product list option"

text \<open>\<open>ProductSchema.methods.validateStock\<close>: \<open>this.stock >= quantity && quantity > 0\<close>.\<close>

definition Product_validateStock :: "product \<Rightarrow> int \<Rightarrow> bool" where
  "Product_validateStock p q = (stock p \<ge> q \<and> q > 0)"

text \<open>
  \<open>Product.find({_id: {$in: productIds}, isActive: true})\<close> followed by
  \<open>new Map(products.map(p => [p._id.toString(), p]))\<close>: the lookup table of the active
  products among the requested ids.
\<close>

definition productMap :: "ProductCollection \<Rightarrow> oid list \<Rightarrow> ProductCollection" where
  "productMap db ids =
     (\<lambda>i. if i \<in> set ids
          then (case db i of
                  None \<Rightarrow> None
                | Some p \<Rightarrow> if isActive p then Some p else None)
          else None)"

text \<open>The \<open>for (const item of items)\<close> loop of \<open>validateStock\<close>, collecting \<open>errors\<close>.\<close>

fun validateItems :: "ProductCollection \<Rightarrow> StockItem list \<Rightarrow> validation_error list" where
  "validateItems pm [] = []"
| "validateItems pm (item # items) =
     (case pm (productId item) of
        None \<Rightarrow>
          \<lparr>err_productId = productId item, err_productName = ''Producto no encontrado'',
           requested = quantity item, available = 0\<rparr> # validateItems pm items
      | Some p \<Rightarrow>
          if \<not> Product_validateStock p (quantity item)
          then \<lparr>err_productId = productId item, err_productName = name p,
                requested = quantity item, available = stock p\<rparr> # validateItems pm items
          else validateItems pm items)"

definition validateStock :: "ProductCollection \<Rightarrow> StockItem list \<Rightarrow> StockValidationResult" where
  "validateStock db items =
     (let pm = productMap db (map productId items);
          errs = validateItems pm items
      in \<lparr>isValid = (errs = []), validation_errors = errs\<rparr>)"

text \<open>
  \<open>Product.findByIdAndUpdate(id, {$inc: {stock: delta}}, {new: true, session, runValidators: true})\<close>:
  returns the updated document, or null when no document has this id.  Update validators
  do not run on \<open>$inc\<close>, so the schema's \<open>min: 0\<close> on stock is not checked here; the
  callers check the returned document themselves.
\<close>

definition findByIdAndUpdate_inc :: "ProductCollection \<Rightarrow> oid \<Rightarrow> int \<Rightarrow> ProductCollection \<times> product option" where
  "findByIdAndUpdate_inc db i delta =
     (case db i of
        None \<Rightarrow> (db, None)
      | Some p \<Rightarrow> (db(i \<mapsto> p\<lparr>stock := stock p + delta\<rparr>), Some (p\<lparr>stock := stock p + delta\<rparr>)))"

text \<open>
  The loop of \<open>decrementStock\<close> inside the transaction.  It reads each product from the
  table fetched before the loop and writes through \<open>findByIdAndUpdate\<close>; a \<open>throw\<close> is
  \<open>Inl\<close> with the message of the Error.
\<close>

fun decrementLoop ::
  "ProductCollection \<Rightarrow> StockItem list \<Rightarrow> ProductCollection \<times> updated_product list \<times> operation_error list
     \<Rightarrow> string + (ProductCollection \<times> updated_product list \<times> operation_error list)" where
  "decrementLoop pm [] acc = Inr acc"
| "decrementLoop pm (item # items) (db, upd, errs) =
     (case pm (productId item) of
        None \<Rightarrow>
          decrementLoop pm items
            (db, upd, errs @ [\<lparr>op_productId = productId item, op_productName = None,
                               error = ''Producto no encontrado'',
                               op_requested = None, op_available = None\<rparr>])
      | Some p \<Rightarrow>
          if stock p < quantity item
          then decrementLoop pm items
                 (db, upd, errs @ [\<lparr>op_productId = productId item, op_productName = Some (name p),
                                    error = ''Stock insuficiente'',
                                    op_requested = Some (quantity item),
                                    op_available = Some (stock p)\<rparr>])
          else (case findByIdAndUpdate_inc db (productId item) (- quantity item) of
                  (db', None) \<Rightarrow>
                    decrementLoop pm items
                      (db', upd, errs @ [\<lparr>op_productId = productId item,
                                          op_productName = Some (name p),
                                          error = ''Error actualizando producto'',
                                          op_requested = None, op_available = None\<rparr>])
                | (db', Some updatedProduct) \<Rightarrow>
                    if stock updatedProduct < 0
                    then Inl (''Stock negativo resultante para '' @ name p)
                    else decrementLoop pm items
                           (db', upd @ [\<lparr>upd_productId = productId item, upd_productName = name p,
                                          previousStock = stock p,
                                          newStock = stock updatedProduct\<rparr>], errs)))"

text \<open>
  The callback of \<open>session.withTransaction\<close> in \<open>decrementStock\<close>.  Before each
  \<open>throw\<close> the source stores a structured failure in the local \<open>result\<close>; the throw
  leaves the callback, so that value is never returned and only the Error's message
  reaches the caller.
\<close>

definition decrementTransaction ::
  "ProductCollection \<Rightarrow> StockItem list \<Rightarrow> string + (ProductCollection \<times> StockOperationResult)" where
  "decrementTransaction db items =
     (let validation = validateStock db items in
      if \<not> isValid validation then Inl ''Validacion de stock fallida''
      else
        (case decrementLoop (productMap db (map productId items)) items (db, [], []) of
           Inl msg \<Rightarrow> Inl msg
         | Inr (db', upd, errs) \<Rightarrow>
             if length errs > 0 then Inl ''Error en decremento de stock''
             else Inr (db', \<lparr>success = True, message = ''Stock decrementado exitosamente'',
                             errors = None, updatedProducts = Some upd\<rparr>)))"

text \<open>
  The result of the \<open>catch\<close> block of \<open>decrementStock\<close> and \<open>incrementStock\<close>.
\<close>

definition transactionFailure :: "string \<Rightarrow> StockOperationResult" where
  "transactionFailure msg =
     \<lparr>success = False, message = ''Error en la transaccion de stock'',
      errors = Some [\<lparr>op_productId = ''general'', op_productName = None, error = msg,
                      op_requested = None, op_available = None\<rparr>],
      updatedProducts = None\<rparr>"

text \<open>
  \<open>decrementStock\<close>: the transaction commits when the callback returns and aborts when it
  throws; an aborted transaction leaves the collection as it was.
\<close>

definition decrementStock :: "ProductCollection \<Rightarrow> StockItem list \<Rightarrow> ProductCollection \<times> StockOperationResult" where
  "decrementStock db items =
     (case decrementTransaction db items of
        Inr (db', result) \<Rightarrow> (db', result)
      | Inl msg \<Rightarrow> (db, transactionFailure msg))"

fun incrementLoop ::
  "ProductCollection \<Rightarrow> StockItem list \<Rightarrow> ProductCollection \<times> updated_product list \<times> operation_error list
     \<Rightarrow> ProductCollection \<times> updated_product list \<times> operation_error list" where
  "incrementLoop pm [] acc = acc"
| "incrementLoop pm (item # items) (db, upd, errs) =
     (case pm (productId item) of
        None \<Rightarrow>
          incrementLoop pm items
            (db, upd, errs @ [\<lparr>op_productId = productId item, op_productName = None,
                               error = ''Producto no encontrado'',
                               op_requested = None, op_available = None\<rparr>])
      | Some p \<Rightarrow>
          (case findByIdAndUpdate_inc db (productId item) (quantity item) of
             (db', None) \<Rightarrow>
               incrementLoop pm items
                 (db', upd, errs @ [\<lparr>op_productId = productId item,
                                     op_productName = Some (name p),
                                     error = ''Error actualizando producto'',
                                     op_requested = None, op_available = None\<rparr>])
           | (db', Some updatedProduct) \<Rightarrow>
               incrementLoop pm items
                 (db', upd @ [\<lparr>upd_productId = productId item, upd_productName = name p,
                                previousStock = stock p,
                                newStock = stock updatedProduct\<rparr>], errs)))"

definition incrementTransaction ::
  "ProductCollection \<Rightarrow> StockItem list \<Rightarrow> string + (ProductCollection \<times> StockOperationResult)" where
  "incrementTransaction db items =
     (case incrementLoop (productMap db (map productId items)) items (db, [], []) of
        (db', upd, errs) \<Rightarrow>
          if length errs > 0 then Inl ''Error en incremento de stock''
          else Inr (db', \<lparr>success = True, message = ''Stock incrementado exitosamente'',
                          errors = None, updatedProducts = Some upd\<rparr>))"

definition incrementStock :: "ProductCollection \<Rightarrow> StockItem list \<Rightarrow> ProductCollection \<times> StockOperationResult" where
  "incrementStock db items =
     (case incrementTransaction db items of
        Inr (db', result) \<Rightarrow> (db', result)
      | Inl msg \<Rightarrow> (db, transactionFailure msg))"


section \<open>Quotes (src/models/Quote.ts, src/controllers/quoteController.ts)\<close>

text \<open>
  Amounts (prices, percentages, totals) are JavaScript numbers; they are modelled as exact
  rationals, so the binary rounding of IEEE-754 arithmetic is outside the model.  Instants
  (\<open>Date\<close>) are integers, the milliseconds of \<open>getTime()\<close>.  The timestamps
  \<open>createdAt\<close>/\<open>updatedAt\<close> that mongoose maintains are not modelled.
\<close>

datatype QuoteStatus = QuotePending | QuotePaid | QuoteCancelled | QuoteExpired

record QuoteItem =
  item_product :: oid
  productSnapshot_name :: string
  productSnapshot_price :: rat
  item_quantity :: int
  item_subtotal :: rat

record Quote =
  quote_id :: oid
  quoteNumber :: string
  items :: "QuoteItem list"
  subtotal :: rat
  tax :: rat
  discount :: rat
  total :: rat
  status :: QuoteStatus
  paymentId :: "oid option"
  expiresAt :: int
  createdBy :: oid

text \<open>\<open>Math.round\<close>: the nearest integer, a tie going towards \<open>+\<infinity>\<close>.\<close>

definition Math_round :: "rat \<Rightarrow> rat" where
  "Math_round x = of_int \<lfloor>x + 1 / 2\<rfloor>"

text \<open>
  The \<open>reduce\<close> of \<open>calculateTotals\<close>: it stores \<open>price * quantity\<close> in every item and
  adds it to the running sum.
\<close>

fun reduceItems :: "rat \<Rightarrow> QuoteItem list \<Rightarrow> rat \<times> QuoteItem list" where
  "reduceItems acc [] = (acc, [])"
| "reduceItems acc (item # rest) =
     (let item' = item\<lparr>item_subtotal := productSnapshot_price item * of_int (item_quantity item)\<rparr>;
          (s, rest') = reduceItems (acc + item_subtotal item') rest
      in (s, item' # rest'))"

definition calculateTotals :: "Quote \<Rightarrow> Quote" where
  "calculateTotals q =
     (let (subtotal0, items') = reduceItems 0 (items q);
          discountAmount = (subtotal0 * discount q) / 100;
          afterDiscount = subtotal0 - discountAmount;
          taxAmount = (afterDiscount * tax q) / 100;
          total0 = afterDiscount + taxAmount
      in q\<lparr>items := items',
            subtotal := Math_round (subtotal0 * 100) / 100,
            total := Math_round (total0 * 100) / 100\<rparr>)"

text \<open>
  \<open>quote.save()\<close> of a stored quote.  Validation comes first; of the schema's validators
  only \<open>expiresAt\<close>'s (\<open>date > new Date()\<close>) depends on more than the document, the
  others hold of a document stored through the same schema and are not modelled.  Then
  the pre-save hook recomputes the totals and the document replaces the stored one.
  A rejected save is \<open>Inl\<close> with the validator's message.
\<close>

definition Quote_save :: "int \<Rightarrow> Quote \<Rightarrow> Quote list \<Rightarrow> string + Quote list" where
  "Quote_save now q qs =
     (if \<not> (expiresAt q > now) then Inl ''La fecha de expiracion debe ser futura''
      else Inr (map (\<lambda>d. if quote_id d = quote_id q then calculateTotals q else d) qs))"

text \<open>
  \<open>expireOldQuotes\<close>: \<open>Quote.updateMany({status: 'pending', expiresAt: {$lte: now}},
  {status: 'expired'})\<close>; the second component is \<open>modifiedCount\<close>.
\<close>

definition expireOldQuotes :: "int \<Rightarrow> Quote list \<Rightarrow> Quote list \<times> nat" where
  "expireOldQuotes now qs =
     (map (\<lambda>q. if status q = QuotePending \<and> expiresAt q \<le> now
                then q\<lparr>status := QuoteExpired\<rparr> else q) qs,
      length (filter (\<lambda>q. status q = QuotePending \<and> expiresAt q \<le> now) qs))"

datatype UserRole = admin | seller

record AuthUser =
  user_id :: oid
  role :: UserRole

datatype cancel_response =
    NotFoundResponse string
  | BadRequestResponse string
  | UpdatedResponse Quote

fun statusString :: "QuoteStatus \<Rightarrow> string" where
  "statusString QuotePending = ''pending''"
| "statusString QuotePaid = ''paid''"
| "statusString QuoteCancelled = ''cancelled''"
| "statusString QuoteExpired = ''expired''"

text \<open>
  \<open>cancelQuote\<close> (PUT /quotes/:id/cancel).  A seller only finds quotes they created.  The
  result is the response and the quote collection afterwards; \<open>Inl\<close> is an exception
  leaving the handler.
\<close>

definition cancelQuote ::
  "int \<Rightarrow> AuthUser option \<Rightarrow> oid \<Rightarrow> Quote list \<Rightarrow> string + (cancel_response \<times> Quote list)" where
  "cancelQuote now user qid qs =
     (case find (\<lambda>q. quote_id q = qid \<and>
                     (case user of
                        Some u \<Rightarrow> if role u = seller then createdBy q = user_id u else True
                      | None \<Rightarrow> True)) qs of
        None \<Rightarrow> Inr (NotFoundResponse ''Presupuesto no encontrado'', qs)
      | Some q \<Rightarrow>
          if status q \<noteq> QuotePending
          then Inr (BadRequestResponse
                      (''No se puede cancelar un presupuesto en estado '' @ statusString (status q)), qs)
          else (case Quote_save now (q\<lparr>status := QuoteCancelled\<rparr>) qs of
                  Inl e \<Rightarrow> Inl e
                | Inr qs' \<Rightarrow> Inr (UpdatedResponse (calculateTotals (q\<lparr>status := QuoteCancelled\<rparr>)), qs')))"

section \<open>Payments (Payment model, payment controller)\<close>

datatype PaymentStatus = PaymentPending | PaymentApproved | PaymentRejected | PaymentCancelled

record ProcessedWebhookData =
  wh_paymentId :: string
  wh_status :: string
  wh_externalReference :: "string option"
  wh_merchantOrder :: "string option"
  wh_topic :: string
  wh_isValid :: bool

record Payment =
  payment_id :: oid
  quote :: oid
  mercadopagoId :: string
  payment_status :: PaymentStatus
  amount :: rat
  externalReference :: string
  webhookData :: "ProcessedWebhookData option"
  paidAt :: "int option"

text \<open>
  First pre-save hook of the Payment schema: unless the document is stored and its
  \<open>quote\<close> unmodified, look for another payment of the same quote.  \<open>loaded\<close> is the
  document as read from the store (\<open>None\<close> for a new one) and \<open>seen\<close> the collection
  as the hook's query sees it.
\<close>

definition preSave_uniqueQuote :: "Payment option \<Rightarrow> Payment list \<Rightarrow> Payment \<Rightarrow> string option" where
  "preSave_uniqueQuote loaded seen p =
     (if (case loaded of None \<Rightarrow> False | Some l \<Rightarrow> quote l = quote p) then None
      else (case find (\<lambda>d. quote d = quote p \<and> payment_id d \<noteq> payment_id p) seen of
              Some existingPayment \<Rightarrow> Some ''Ya existe un pago para este presupuesto''
            | None \<Rightarrow> None))"

text \<open>Third pre-save hook: \<open>paidAt\<close> follows a modified status.\<close>

definition preSave_paidAt :: "int \<Rightarrow> Payment option \<Rightarrow> Payment \<Rightarrow> Payment" where
  "preSave_paidAt now loaded p =
     (if (case loaded of None \<Rightarrow> True | Some l \<Rightarrow> payment_status l \<noteq> payment_status p)
      then (if payment_status p = PaymentApproved \<and> paidAt p = None then p\<lparr>paidAt := Some now\<rparr>
            else if payment_status p \<noteq> PaymentApproved then p\<lparr>paidAt := None\<rparr>
            else p)
      else p)"

text \<open>
  The collection's unique indexes (\<open>_id\<close>, and \<open>unique: true\<close> on \<open>quote\<close>,
  \<open>mercadopagoId\<close> and \<open>externalReference\<close>): the store refuses an insert whose key is
  already there.
\<close>

definition insertOne :: "Payment list \<Rightarrow> Payment \<Rightarrow> string + Payment list" where
  "insertOne db p =
     (if list_ex (\<lambda>d. payment_id d = payment_id p \<or> quote d = quote p \<or>
                        mercadopagoId d = mercadopagoId p \<or>
                        externalReference d = externalReference p) db
      then Inl ''E11000 duplicate key error''
      else Inr (db @ [p]))"

text \<open>
  \<open>new Payment({...}).save()\<close>, as \<open>createPayment\<close> does it with every required field
  given (so the hook that generates a missing \<open>externalReference\<close> does nothing).  The
  hooks run against \<open>seen\<close>, the insert against \<open>db\<close>: the two differ when another
  request wrote in between.
\<close>

definition Payment_create :: "int \<Rightarrow> Payment list \<Rightarrow> Payment list \<Rightarrow> Payment \<Rightarrow> string + Payment list" where
  "Payment_create now seen db p =
     (case preSave_uniqueQuote None seen p of
        Some e \<Rightarrow> Inl e
      | None \<Rightarrow> insertOne db (preSave_paidAt now None p))"

text \<open>
  \<open>payment.save()\<close> of a stored payment, \<open>loaded\<close> being the document as it was read:
  the hooks, then the document replaces the stored one.  The schema's validators hold of
  it (\<open>paidAt\<close> is never after the save) and are not modelled.
\<close>

definition Payment_save :: "int \<Rightarrow> Payment \<Rightarrow> Payment \<Rightarrow> Payment list \<Rightarrow> string + Payment list" where
  "Payment_save now loaded p db =
     (case preSave_uniqueQuote (Some loaded) db p of
        Some e \<Rightarrow> Inl e
      | None \<Rightarrow>
          Inr (map (\<lambda>d. if payment_id d = payment_id p then preSave_paidAt now (Some loaded) p else d) db))"

section \<open>Payment notifications (handlePaymentWebhook)\<close>

datatype log_level = LogInfo | LogWarn | LogError

record Store =
  products :: ProductCollection
  quotes :: "Quote list"
  payments :: "Payment list"
  logs :: "(log_level \<times> string) list"

definition logger :: "log_level \<Rightarrow> string \<Rightarrow> Store \<Rightarrow> Store" where
  "logger lvl msg s = s\<lparr>logs := logs s @ [(lvl, msg)]\<rparr>"

text \<open>
  The lookup at the head of \<open>handlePaymentWebhook\<close>: by \<open>externalReference\<close> when the
  notification carries a non-empty one, and no payment otherwise.
\<close>

definition findPayment :: "ProcessedWebhookData \<Rightarrow> Payment list \<Rightarrow> Payment option" where
  "findPayment wd ps =
     (case wh_externalReference wd of
        None \<Rightarrow> None
      | Some r \<Rightarrow> if r = [] then None else find (\<lambda>p. externalReference p = r) ps)"

text \<open>
  The quote part of \<open>case 'approved'\<close>: mark the payment's quote paid, save it, decrement
  the stock of its items and log the outcome.
\<close>

definition approveQuote :: "int \<Rightarrow> Payment \<Rightarrow> Store \<Rightarrow> string + Store" where
  "approveQuote now payment s =
     (case find (\<lambda>q. quote_id q = quote payment) (quotes s) of
        None \<Rightarrow> Inr s
      | Some q \<Rightarrow>
          (case Quote_save now (q\<lparr>status := QuotePaid\<rparr>) (quotes s) of
             Inl e \<Rightarrow> Inl e
           | Inr qs' \<Rightarrow>
               (let stockItems = map (\<lambda>item. \<lparr>productId = item_product item,
                                                 quantity = item_quantity item\<rparr>) (items q);
                    (db', stockResult) = decrementStock (products s) stockItems;
                    s' = s\<lparr>quotes := qs', products := db'\<rparr>
                in if \<not> success stockResult
                   then Inr (logger LogError ''Error decrementando stock despues del pago'' s')
                   else Inr (logger LogInfo ''Stock decrementado exitosamente'' s'))))"

text \<open>
  \<open>handlePaymentWebhook\<close>, at the instant \<open>now\<close>.  \<open>Inl\<close> is the exception the handler
  logs and rethrows; it comes from the quote's save, which precedes every write, so the
  store is then as it was (the payment's save cannot fail here: its \<open>quote\<close> is
  unmodified).
\<close>

definition handlePaymentWebhook :: "int \<Rightarrow> ProcessedWebhookData \<Rightarrow> Store \<Rightarrow> string + Store" where
  "handlePaymentWebhook now wd s0 =
     (let s = logger LogInfo ''Procesando webhook de pago'' s0 in
      case findPayment wd (payments s) of
        None \<Rightarrow> Inr (logger LogWarn ''No se pudo encontrar el pago asociado al webhook'' s)
      | Some loaded \<Rightarrow>
          (let outcome =
                 (if wh_status wd = ''approved''
                  then (case approveQuote now loaded s of
                          Inl e \<Rightarrow> Inl e
                        | Inr s' \<Rightarrow>
                            Inr (Some (loaded\<lparr>payment_status := PaymentApproved,
                                               paidAt := Some now\<rparr>, s')))
                  else if wh_status wd = ''rejected''
                  then Inr (Some (loaded\<lparr>payment_status := PaymentRejected\<rparr>, s))
                  else if wh_status wd = ''cancelled''
                  then Inr (Some (loaded\<lparr>payment_status := PaymentCancelled\<rparr>, s))
                  else Inr None)
           in case outcome of
                Inl e \<Rightarrow> Inl e
              | Inr None \<Rightarrow> Inr (logger LogInfo ''Estado de pago no reconocido'' s)
              | Inr (Some (payment, s')) \<Rightarrow>
                  (case Payment_save now loaded (payment\<lparr>webhookData := Some wd\<rparr>) (payments s') of
                     Inl e \<Rightarrow> Inl e
                   | Inr ps' \<Rightarrow>
                       Inr (logger LogInfo ''Pago actualizado por webhook''
                              (s'\<lparr>payments := ps'\<rparr>)))))"

section \<open>Validation of the quote-creation request (createQuoteValidation)\<close>

text \<open>
  The request body is the value \<open>express.json()\<close> parsed.  A number is kept as the text
  \<open>String(n)\<close> gives for it, which is all the validators read of it; an object is the
  list of its members, with distinct keys.  The chains are built with express-validator 7;
  its builder, field selection and runner are modelled below, and of validator.js the
  functions on ASCII strings that the chains of this file need.  \<open>isEmail\<close>,
  \<open>matches\<close>, \<open>isFloat\<close>, the sanitizers other than \<open>trim\<close> and the text of an
  array value stay parameters (\<open>library\<close>).  A field path is written as the list of
  its segments.
\<close>

datatype json =
    JNull
  | JBool bool
  | JNum string
  | JStr string
  | JArr "json list"
  | JObj "(string \<times> json) list"

datatype validator =
    IsObject
  | IsEmpty
  | IsLength nat "nat option"
  | IsEmail
  | Matches string
  | IsArray nat
  | IsMongoId
  | IsInt int
  | Exists
  | IsFloat rat rat

datatype sanitizer = Trim | NormalizeEmail | ToInt | ToFloat

text \<open>The calls of a validation chain, in the order the source writes them.\<close>

datatype step =
    V validator
  | S sanitizer
  | NotNext
  | NotEmpty
  | Optional
  | WithMessage string

record library =
  isEmail :: "string \<Rightarrow> bool"
  matches :: "string \<Rightarrow> string \<Rightarrow> bool"
  isFloat :: "rat \<Rightarrow> rat \<Rightarrow> string \<Rightarrow> bool"
  sanitize :: "sanitizer \<Rightarrow> json option \<Rightarrow> json option"
  stringifyArray :: "json list \<Rightarrow> string"

text \<open>An item of a chain's stack: a validation (negated or not, with its message) or a sanitization.\<close>

datatype context_item = Validation bool validator string | Sanitization sanitizer

text \<open>
  The builder: \<open>not()\<close> negates the next validator, \<open>notEmpty()\<close> is \<open>not().isEmpty()\<close>,
  \<open>withMessage\<close> sets the message of the last validator added (\<open>setLastMessage\<close>
  works on the stack latest first), \<open>optional()\<close> marks the chain.  The first
  argument of \<open>build\<close> is the pending negation.
\<close>

fun setLastMessage :: "string \<Rightarrow> context_item list \<Rightarrow> context_item list" where
  "setLastMessage m [] = []"
| "setLastMessage m (Validation n v old # earlier) = Validation n v m # earlier"
| "setLastMessage m (Sanitization sn # earlier) = Sanitization sn # setLastMessage m earlier"

fun build :: "bool \<Rightarrow> context_item list \<Rightarrow> step list \<Rightarrow> context_item list" where
  "build neg stack [] = stack"
| "build neg stack (V v # steps) = build False (stack @ [Validation neg v ''Invalid value'']) steps"
| "build neg stack (NotEmpty # steps) = build False (stack @ [Validation True IsEmpty ''Invalid value'']) steps"
| "build neg stack (S sn # steps) = build neg (stack @ [Sanitization sn]) steps"
| "build neg stack (NotNext # steps) = build True stack steps"
| "build neg stack (Optional # steps) = build neg stack steps"
| "build neg stack (WithMessage m # steps) =
     build neg (rev (setLastMessage m (rev stack))) steps"

definition isOptional :: "step list \<Rightarrow> bool" where
  "isOptional steps = (Optional \<in> set steps)"

text \<open>A property of a parsed value; no key of these chains is an array index.\<close>

fun getProp :: "json \<Rightarrow> string \<Rightarrow> json option" where
  "getProp (JObj members) k = map_of members k"
| "getProp other k = None"

text \<open>
  Field selection: the values a path selects, \<open>None\<close> being \<open>undefined\<close>.  A wildcard
  ranges over the elements of an array or the members of an object; a primitive with
  segments left selects nothing; a missing or null value is read as the empty object.
\<close>

fun selectFields :: "string list \<Rightarrow> json option \<Rightarrow> json option list" where
  "selectFields [] v = [v]"
| "selectFields (k # rest) None =
     (if k = ''*'' then [] else selectFields rest None)"
| "selectFields (k # rest) (Some JNull) =
     (if k = ''*'' then [] else selectFields rest None)"
| "selectFields (k # rest) (Some (JObj members)) =
     (if k = ''*'' then concat (map (\<lambda>m. selectFields rest (Some (snd m))) members)
      else selectFields rest (map_of members k))"
| "selectFields (k # rest) (Some (JArr elems)) =
     (if k = ''*'' then concat (map (\<lambda>e. selectFields rest (Some e)) elems)
      else selectFields rest (getProp (JArr elems) k))"
| "selectFields (k # rest) (Some primitive) = []"

text \<open>
  express-validator's \<open>toString\<close>, which every standard validator reads its input
  through: \<open>undefined\<close> and \<open>null\<close> give the empty text, a primitive its
  \<open>String\<close>, an object \<open>[object Object]\<close>; the text of an array is the library's.
\<close>

definition toString :: "library \<Rightarrow> json option \<Rightarrow> string" where
  "toString lib v =
     (case v of
        None \<Rightarrow> []
      | Some JNull \<Rightarrow> []
      | Some (JBool b) \<Rightarrow> (if b then ''true'' else ''false'')
      | Some (JNum n) \<Rightarrow> n
      | Some (JStr t) \<Rightarrow> t
      | Some (JObj members) \<Rightarrow> ''[object Object]''
      | Some (JArr elems) \<Rightarrow> stringifyArray lib elems)"

definition isDigit :: "char \<Rightarrow> bool" where
  "isDigit c = (c \<in> set ''0123456789'')"

definition isHexDigit :: "char \<Rightarrow> bool" where
  "isHexDigit c = (c \<in> set ''0123456789abcdefABCDEF'')"

definition isSpace :: "char \<Rightarrow> bool" where
  "isSpace c = (c \<in> {CHR '' '', CHR 0x09, CHR 0x0A, CHR 0x0B, CHR 0x0C, CHR 0x0D})"

text \<open>validator.js \<open>isHexadecimal\<close>: \<open>/^(0x|0h)?[0-9A-F]+$/i\<close>.\<close>

definition isHexadecimal :: "string \<Rightarrow> bool" where
  "isHexadecimal t =
     (let digits = (if take 2 t \<in> {''0x'', ''0X'', ''0h'', ''0H''} then drop 2 t else t)
      in digits \<noteq> [] \<and> list_all isHexDigit digits)"

definition isMongoId :: "string \<Rightarrow> bool" where
  "isMongoId t = (isHexadecimal t \<and> length t = 24)"

fun digitsValue :: "nat \<Rightarrow> string \<Rightarrow> nat" where
  "digitsValue acc [] = acc"
| "digitsValue acc (c # cs) = digitsValue (10 * acc + (of_char c - 48)) cs"

text \<open>validator.js \<open>isInt(str, {min})\<close>: \<open>/^[-+]?[0-9]+$/\<close>, and the number at least \<open>min\<close>.\<close>

definition isInt :: "int \<Rightarrow> string \<Rightarrow> bool" where
  "isInt lo t =
     (let negative = (take 1 t = ''-'');
          digits = (if take 1 t = ''-'' \<or> take 1 t = ''+'' then drop 1 t else t)
      in digits \<noteq> [] \<and> list_all isDigit digits \<and>
         lo \<le> (if negative then - int (digitsValue 0 digits) else int (digitsValue 0 digits)))"

definition trim :: "string \<Rightarrow> string" where
  "trim t = rev (dropWhile isSpace (rev (dropWhile isSpace t)))"

text \<open>A standard validator on the text of a value.\<close>

fun standard :: "library \<Rightarrow> validator \<Rightarrow> string \<Rightarrow> bool" where
  "standard lib IsEmpty t = (t = [])"
| "standard lib (IsLength lo hi) t =
     (lo \<le> length t \<and> (case hi of None \<Rightarrow> True | Some h \<Rightarrow> length t \<le> h))"
| "standard lib IsEmail t = isEmail lib t"
| "standard lib (Matches re) t = matches lib re t"
| "standard lib IsMongoId t = isMongoId t"
| "standard lib (IsInt lo) t = isInt lo t"
| "standard lib (IsFloat lo hi) t = isFloat lib lo hi t"
| "standard lib other t = True"

text \<open>A custom validator (\<open>exists\<close>, \<open>isObject\<close>, \<open>isArray\<close>) on the value itself.\<close>

fun custom :: "validator \<Rightarrow> json option \<Rightarrow> bool option" where
  "custom Exists v = Some (v \<noteq> None)"
| "custom IsObject v = Some (case v of Some (JObj members) \<Rightarrow> True | _ \<Rightarrow> False)"
| "custom (IsArray lo) v = Some (case v of Some (JArr elems) \<Rightarrow> lo \<le> length elems | _ \<Rightarrow> False)"
| "custom other v = None"

text \<open>
  The messages one validation adds for one value.  A custom validation fails when its
  result equals the negation flag turned round; a standard validation runs on every
  element of an array value and fails where the validator's result equals the flag.
\<close>

definition runValidation :: "library \<Rightarrow> bool \<Rightarrow> validator \<Rightarrow> string \<Rightarrow> json option \<Rightarrow> string list" where
  "runValidation lib negated v msg x =
     (case custom v x of
        Some holds \<Rightarrow> (if (if negated then holds else \<not> holds) then [msg] else [])
      | None \<Rightarrow>
          map (\<lambda>e. msg)
            (filter (\<lambda>e. standard lib v (toString lib e) = negated)
               (case x of Some (JArr elems) \<Rightarrow> map Some elems | _ \<Rightarrow> [x])))"

definition runSanitization :: "library \<Rightarrow> sanitizer \<Rightarrow> json option \<Rightarrow> json option" where
  "runSanitization lib sn x =
     (if sn = Trim
      then (case x of
              Some (JArr elems) \<Rightarrow> Some (JArr (map (\<lambda>e. JStr (trim (toString lib (Some e)))) elems))
            | _ \<Rightarrow> Some (JStr (trim (toString lib x))))
      else sanitize lib sn x)"

text \<open>
  The runner on one selected value: the stack's items in order, each validation adding
  its messages, each sanitization replacing the value; an optional chain skips an item
  while the value is \<open>undefined\<close>.
\<close>

fun runStack :: "library \<Rightarrow> bool \<Rightarrow> context_item list \<Rightarrow> json option \<Rightarrow> string list" where
  "runStack lib opt [] x = []"
| "runStack lib opt (Validation negated v msg # stack) x =
     (if opt \<and> x = None then runStack lib opt stack x
      else runValidation lib negated v msg x @ runStack lib opt stack x)"
| "runStack lib opt (Sanitization sn # stack) x =
     (if opt \<and> x = None then runStack lib opt stack x
      else runStack lib opt stack (runSanitization lib sn x))"

record ValidationChain =
  chain_fields :: "string list list"
  chain_steps :: "step list"

definition body :: "string list list \<Rightarrow> step list \<Rightarrow> ValidationChain" where
  "body fs st = \<lparr>chain_fields = fs, chain_steps = st\<rparr>"

text \<open>The errors of one chain on a request body: the field pattern and the message.\<close>

definition runChain :: "library \<Rightarrow> json \<Rightarrow> ValidationChain \<Rightarrow> (string list \<times> string) list" where
  "runChain lib b c =
     concat (map (\<lambda>f.
       concat (map (\<lambda>x. map (\<lambda>m. (f, m)) (runStack lib (isOptional (chain_steps c)) (build False [] (chain_steps c)) x))
                 (selectFields f (Some b))))
       (chain_fields c))"

text \<open>The source text of the regular expression for \<open>customer.phone\<close>.\<close>

definition phoneRegex :: string where
  "phoneRegex =
     ''^['' @ [CHR 0x5C] @ ''+]?[0-9'' @ [CHR 0x5C] @ ''s'' @ [CHR 0x5C] @ ''-'' @
     [CHR 0x5C] @ ''('' @ [CHR 0x5C] @ '')]+$''"

definition createQuoteValidation :: "ValidationChain list" where
  "createQuoteValidation =
     [body [[''customer'']]
        [V IsObject, WithMessage ''Los datos del cliente son requeridos''],
      body [[''customer'', ''name'']]
        [NotEmpty, WithMessage ''El nombre del cliente es requerido'', S Trim,
         V (IsLength 2 (Some 200)), WithMessage ''El nombre debe tener entre 2 y 200 caracteres''],
      body [[''customer'', ''email'']]
        [Optional, V IsEmail, WithMessage ''El email del cliente no es valido'', S NormalizeEmail],
      body [[''customer'', ''phone'']]
        [Optional, V (Matches phoneRegex),
         WithMessage ''El formato del telefono no es valido''],
      body [[''items'']]
        [V (IsArray 1), WithMessage ''Debe incluir al menos un item''],
      body [[''items'', ''*'', ''productId'']]
        [V IsMongoId, WithMessage ''ID de producto invalido''],
      body [[''items'', ''*'', ''quantity'']]
        [V (IsInt 1), WithMessage ''La cantidad debe ser un numero entero mayor a 0'', S ToInt],
      body [[''items'', ''*'', ''product'']]
        [NotNext, V Exists,
         WithMessage ''items.product se calcula automaticamente, usar solo productId''],
      body [[''items'', ''*'', ''productSnapshot'']]
        [NotNext, V Exists, WithMessage ''items.productSnapshot se genera automaticamente''],
      body [[''items'', ''*'', ''subtotal'']]
        [NotNext, V Exists, WithMessage ''items.subtotal se calcula automaticamente''],
      body [[''discount'']]
        [Optional, V (IsFloat 0 100), WithMessage ''El descuento debe ser entre 0 y 100'', S ToFloat],
      body [[''tax'']]
        [Optional, V (IsFloat 0 100), WithMessage ''El impuesto debe ser entre 0 y 100'', S ToFloat],
      body [[''notes'']]
        [Optional, S Trim, V (IsLength 0 (Some 1000)),
         WithMessage ''Las notas no pueden exceder 1000 caracteres''],
      body [[''expiresAt''], [''quoteNumber''], [''_id''], [''createdAt''], [''updatedAt'']]
        [NotNext, V Exists,
         WithMessage ''Este campo se genera automaticamente, no debe enviarse'']]"

text \<open>
  \<open>validate(createQuoteValidation)\<close>: every chain runs, then \<open>handleValidationErrors\<close>
  answers 400 when there is an error and lets the request through otherwise.
\<close>

definition validationResult :: "library \<Rightarrow> json \<Rightarrow> (string list \<times> string) list" where
  "validationResult lib b = concat (map (runChain lib b) createQuoteValidation)"

definition handleValidationErrors :: "(string list \<times> string) list \<Rightarrow> (nat \<times> string) option" where
  "handleValidationErrors errs =
     (if errs \<noteq> [] then Some (400, ''Datos de entrada invalidos'') else None)"

section \<open>Notions the properties are stated with\<close>

subsection \<open>Stock ledger\<close>

definition stockOf :: "ProductCollection \<Rightarrow> oid \<Rightarrow> int" where
  "stockOf db i = (case db i of None \<Rightarrow> 0 | Some p \<Rightarrow> stock p)"

definition nonNegative :: "ProductCollection \<Rightarrow> bool" where
  "nonNegative db = (\<forall>i p. db i = Some p \<longrightarrow> 0 \<le> stock p)"

text \<open>The quantity a batch asks of product \<open>i\<close>, over all its items.\<close>

definition requestedFor :: "oid \<Rightarrow> StockItem list \<Rightarrow> int" where
  "requestedFor i batch = sum_list (map quantity (filter (\<lambda>it. productId it = i) batch))"

definition adjustStock :: "ProductCollection \<Rightarrow> (oid \<Rightarrow> int) \<Rightarrow> ProductCollection" where
  "adjustStock db d = (\<lambda>i. map_option (\<lambda>p. p\<lparr>stock := stock p + d i\<rparr>) (db i))"

datatype ledger_call = Decrement "StockItem list" | Increment "StockItem list"

fun ledgerCall :: "ProductCollection \<Rightarrow> ledger_call \<Rightarrow> ProductCollection \<times> StockOperationResult" where
  "ledgerCall db (Decrement batch) = decrementStock db batch"
| "ledgerCall db (Increment batch) = incrementStock db batch"

fun runLedger :: "ProductCollection \<Rightarrow> ledger_call list \<Rightarrow> ProductCollection" where
  "runLedger db [] = db"
| "runLedger db (c # cs) = runLedger (fst (ledgerCall db c)) cs"

text \<open>
  What the calls that succeeded took out of product \<open>i\<close>: the quantities decremented
  minus the quantities incremented.
\<close>

fun netDecremented :: "oid \<Rightarrow> ProductCollection \<Rightarrow> ledger_call list \<Rightarrow> int" where
  "netDecremented i db [] = 0"
| "netDecremented i db (Decrement batch # cs) =
     (if success (snd (decrementStock db batch)) then requestedFor i batch else 0)
       + netDecremented i (fst (decrementStock db batch)) cs"
| "netDecremented i db (Increment batch # cs) =
     (if success (snd (incrementStock db batch)) then - requestedFor i batch else 0)
       + netDecremented i (fst (incrementStock db batch)) cs"

fun nonNegativeIncrements :: "ledger_call list \<Rightarrow> bool" where
  "nonNegativeIncrements [] = True"
| "nonNegativeIncrements (Decrement batch # cs) = nonNegativeIncrements cs"
| "nonNegativeIncrements (Increment batch # cs) =
     (list_all (\<lambda>it. 0 \<le> quantity it) batch \<and> nonNegativeIncrements cs)"

subsection \<open>Totals as the specification words them\<close>

text \<open>
  Half-up rounding to two decimals: the multiple of 1/100 below \<open>x\<close>, or the next one
  when \<open>x\<close> is at least half a hundredth above it.
\<close>

definition spec_round2 :: "rat \<Rightarrow> rat" where
  "spec_round2 x =
     (let n = \<lfloor>x * 100\<rfloor>
      in if x * 100 - of_int n \<ge> 1 / 2 then (of_int n + 1) / 100 else of_int n / 100)"

definition spec_subtotal :: "QuoteItem list \<Rightarrow> rat" where
  "spec_subtotal ls = (\<Sum>l\<leftarrow>ls. productSnapshot_price l * of_int (item_quantity l))"

definition spec_afterDiscount :: "QuoteItem list \<Rightarrow> rat \<Rightarrow> rat" where
  "spec_afterDiscount ls d = spec_subtotal ls * (1 - d / 100)"

definition spec_total :: "QuoteItem list \<Rightarrow> rat \<Rightarrow> rat \<Rightarrow> rat" where
  "spec_total ls d t = spec_afterDiscount ls d * (1 + t / 100)"

subsection \<open>Creation attempts and notification deliveries\<close>

text \<open>
  A run of payment-creation attempts.  Each attempt comes with the collection as its
  pre-save query saw it, which need not be the collection at the time of the insert; a
  failed attempt leaves the collection as it is.
\<close>

fun createAll :: "int \<Rightarrow> (Payment list \<times> Payment) list \<Rightarrow> Payment list \<Rightarrow> Payment list" where
  "createAll now [] db = db"
| "createAll now ((seen, p) # attempts) db =
     (case Payment_create now seen db p of
        Inl e \<Rightarrow> createAll now attempts db
      | Inr db' \<Rightarrow> createAll now attempts db')"

text \<open>The same notification delivered \<open>n\<close> times in a row.\<close>

fun deliver :: "int \<Rightarrow> ProcessedWebhookData \<Rightarrow> nat \<Rightarrow> Store \<Rightarrow> string + Store" where
  "deliver now wd 0 s = Inr s"
| "deliver now wd (Suc n) s =
     (case handlePaymentWebhook now wd s of Inl e \<Rightarrow> Inl e | Inr s' \<Rightarrow> deliver now wd n s')"

subsection \<open>Sample data\<close>

definition productX :: oid where
  "productX = ''507f1f77bcf86cd799439011''"

definition sampleProducts :: "int \<Rightarrow> bool \<Rightarrow> ProductCollection" where
  "sampleProducts n active = Map.empty(productX \<mapsto> \<lparr>name = ''Tornillo'', stock = n, isActive = active\<rparr>)"

definition sampleQuote :: "QuoteStatus \<Rightarrow> Quote" where
  "sampleQuote st =
     \<lparr>quote_id = ''65a000000000000000000001'', quoteNumber = ''QT-20240115-0042'',
      items = [\<lparr>item_product = productX, productSnapshot_name = ''Tornillo'',
                productSnapshot_price = 100, item_quantity = 2, item_subtotal = 200\<rparr>],
      subtotal = 200, tax = 21, discount = 10, total = 2178 / 10, status = st,
      paymentId = Some ''65b000000000000000000001'', expiresAt = 2000,
      createdBy = ''65c000000000000000000001''\<rparr>"

definition samplePayment :: Payment where
  "samplePayment =
     \<lparr>payment_id = ''65b000000000000000000001'', quote = ''65a000000000000000000001'',
      mercadopagoId = ''1265043745-pref'', payment_status = PaymentPending,
      amount = 2178 / 10, externalReference = ''QUOTE-QT-20240115-0042-1705312800000'',
      webhookData = None, paidAt = None\<rparr>"

definition sampleStore :: "int \<Rightarrow> QuoteStatus \<Rightarrow> Store" where
  "sampleStore n st =
     \<lparr>products = sampleProducts n True, quotes = [sampleQuote st],
      payments = [samplePayment], logs = []\<rparr>"

definition approvedNotification :: ProcessedWebhookData where
  "approvedNotification =
     \<lparr>wh_paymentId = ''71234567890'', wh_status = ''approved'',
      wh_externalReference = Some ''QUOTE-QT-20240115-0042-1705312800000'',
      wh_merchantOrder = None, wh_topic = ''payment'', wh_isValid = True\<rparr>"

text \<open>A library whose parameters reject every input and leave every value as it is.\<close>

definition rejectingLibrary :: library where
  "rejectingLibrary =
     \<lparr>isEmail = (\<lambda>t. False), matches = (\<lambda>re t. False), isFloat = (\<lambda>lo hi t. False),
      sanitize = (\<lambda>sn x. x), stringifyArray = (\<lambda>elems. [])\<rparr>"

text \<open>
  \<open>{"customer": {"name": "Ana Perez"}, "items": [{"productId": "507f...", "quantity": 2}]}\<close>
  with further top-level members.
\<close>

definition sampleBody :: "(string \<times> json) list \<Rightarrow> json" where
  "sampleBody extra =
     JObj ([(''customer'', JObj [(''name'', JStr ''Ana Perez'')]),
            (''items'', JArr [JObj [(''productId'', JStr productX), (''quantity'', JNum ''2'')]])]
           @ extra)"

definition secondPayment :: Payment where
  "secondPayment =
     samplePayment\<lparr>payment_id := ''65b000000000000000000002'',
                   mercadopagoId := ''1265043745-pref-2'',
                   externalReference := ''QUOTE-QT-20240115-0042-1705312900000''\<rparr>"

text \<open>The quote of the specification's example before its first save: no totals yet.\<close>

definition draftQuote :: Quote where
  "draftQuote =
     (sampleQuote QuotePending)
       \<lparr>items := [\<lparr>item_product = productX, productSnapshot_name = ''Tornillo'',
                   productSnapshot_price = 100, item_quantity = 2, item_subtotal = 0\<rparr>],
        subtotal := 0, total := 0\<rparr>"

text \<open>The top-level fields that the last chain of \<open>createQuoteValidation\<close> names.\<close>

definition generatedFields :: "string list" where
  "generatedFields = [''expiresAt'', ''quoteNumber'', ''_id'', ''createdAt'', ''updatedAt'']"

text \<open>The per-item fields that the chains of \<open>createQuoteValidation\<close> refuse.\<close>

definition itemFields :: "string list" where
  "itemFields = [''product'', ''productSnapshot'', ''subtotal'']"

section \<open>Properties of the stock ledger\<close>

lemma requestedFor_Nil [simp]: "requestedFor i [] = 0"
  by (simp add: requestedFor_def)

lemma requestedFor_Cons [simp]:
  "requestedFor i (it # batch) = (if productId it = i then quantity it else 0) + requestedFor i batch"
  by (simp add: requestedFor_def)

lemma decrementLoop_errs_grow:
  "decrementLoop pm batch (db, upd, errs) = Inr (db', upd', errs') \<Longrightarrow> \<exists>ys. errs' = errs @ ys"
proof (induction batch arbitrary: db upd errs)
  case Nil
  then show ?case by simp
next
  case (Cons item batch)
  then show ?case
    by (fastforce simp: findByIdAndUpdate_inc_def split: option.splits if_splits prod.splits)
qed

lemma decrementLoop_effect:
  "decrementLoop pm batch (db, upd, errs) = Inr (db', upd', []) \<Longrightarrow>
   db' = adjustStock db (\<lambda>i. - requestedFor i batch)"
proof (induction batch arbitrary: db upd errs)
  case Nil
  then show ?case by (auto simp: adjustStock_def map_option_case split: option.splits)
next
  case (Cons item batch)
  show ?case
  proof (cases "pm (productId item)")
    case None
    with Cons.prems show ?thesis
      by (auto dest: decrementLoop_errs_grow)
  next
    case (Some p)
    show ?thesis
    proof (cases "stock p < quantity item")
      case True
      with Some Cons.prems show ?thesis by (auto dest: decrementLoop_errs_grow)
    next
      case False
      show ?thesis
      proof (cases "db (productId item)")
        case None
        with Some False Cons.prems show ?thesis
          by (auto simp: findByIdAndUpdate_inc_def dest: decrementLoop_errs_grow)
      next
        case (Some q)
        with \<open>pm (productId item) = Some p\<close> False Cons.prems
        have rest: "decrementLoop pm batch (db(productId item \<mapsto> q\<lparr>stock := stock q - quantity item\<rparr>),
                      upd @ [\<lparr>upd_productId = productId item, upd_productName = name p,
                                          previousStock = stock p,
                                          newStock = stock q - quantity item\<rparr>], errs) = Inr (db', upd', [])"
          by (auto simp: findByIdAndUpdate_inc_def split: if_splits)
        from Cons.IH[OF rest] Some show ?thesis
          by (auto simp: adjustStock_def fun_eq_iff)
      qed
    qed
  qed
qed

lemma decrementLoop_nonNegative:
  "nonNegative db \<Longrightarrow> decrementLoop pm batch (db, upd, errs) = Inr (db', upd', errs') \<Longrightarrow>
   nonNegative db'"
proof (induction batch arbitrary: db upd errs)
  case Nil
  then show ?case by simp
next
  case (Cons item batch)
  show ?case
  proof (cases "pm (productId item)")
    case None
    with Cons show ?thesis by auto
  next
    case (Some p)
    show ?thesis
    proof (cases "stock p < quantity item")
      case True
      with Some Cons show ?thesis by auto
    next
      case False
      show ?thesis
      proof (cases "db (productId item)")
        case None
        with \<open>pm (productId item) = Some p\<close> False Cons show ?thesis
          by (auto simp: findByIdAndUpdate_inc_def)
      next
        case (Some q)
        with \<open>pm (productId item) = Some p\<close> False Cons.prems
        have ok: "0 \<le> stock q - quantity item"
          and rest: "decrementLoop pm batch (db(productId item \<mapsto> q\<lparr>stock := stock q - quantity item\<rparr>),
                      upd @ [\<lparr>upd_productId = productId item, upd_productName = name p,
                                          previousStock = stock p,
                                          newStock = stock q - quantity item\<rparr>], errs) = Inr (db', upd', errs')"
          by (auto simp: findByIdAndUpdate_inc_def split: if_splits)
        from Cons.prems(1) ok
        have "nonNegative (db(productId item \<mapsto> q\<lparr>stock := stock q - quantity item\<rparr>))"
          by (auto simp: nonNegative_def)
        from Cons.IH[OF this rest] show ?thesis .
      qed
    qed
  qed
qed

lemma incrementLoop_errs_grow:
  "incrementLoop pm batch (db, upd, errs) = (db', upd', errs') \<Longrightarrow> \<exists>ys. errs' = errs @ ys"
proof (induction batch arbitrary: db upd errs)
  case Nil
  then show ?case by simp
next
  case (Cons item batch)
  then show ?case
    by (fastforce simp: findByIdAndUpdate_inc_def split: option.splits if_splits prod.splits)
qed

lemma incrementLoop_effect:
  "incrementLoop pm batch (db, upd, errs) = (db', upd', []) \<Longrightarrow>
   db' = adjustStock db (\<lambda>i. requestedFor i batch)"
proof (induction batch arbitrary: db upd errs)
  case Nil
  then show ?case by (auto simp: adjustStock_def map_option_case split: option.splits)
next
  case (Cons item batch)
  show ?case
  proof (cases "pm (productId item)")
    case None
    with Cons.prems show ?thesis
      by (auto dest: incrementLoop_errs_grow)
  next
    case (Some p)
    show ?thesis
    proof (cases "db (productId item)")
      case None
      with Some Cons.prems show ?thesis
        by (auto simp: findByIdAndUpdate_inc_def dest: incrementLoop_errs_grow)
    next
      case (Some q)
      with \<open>pm (productId item) = Some p\<close> Cons.prems
      have rest: "incrementLoop pm batch (db(productId item \<mapsto> q\<lparr>stock := stock q + quantity item\<rparr>),
                    upd @ [\<lparr>upd_productId = productId item, upd_productName = name p,
                                        previousStock = stock p,
                                        newStock = stock q + quantity item\<rparr>], errs) = (db', upd', [])"
        by (auto simp: findByIdAndUpdate_inc_def)
      from Cons.IH[OF rest] Some show ?thesis
        by (auto simp: adjustStock_def fun_eq_iff)
    qed
  qed
qed

text \<open>
  A failed call leaves every product as it was: the transaction is aborted.  A call that
  succeeds takes from (adds to) every product exactly what the batch asks of it.
\<close>

lemma decrementStock_failure_keeps_db:
  "\<not> success (snd (decrementStock db batch)) \<Longrightarrow> fst (decrementStock db batch) = db"
  by (auto simp: decrementStock_def decrementTransaction_def Let_def
           split: sum.splits prod.splits if_splits)

lemma incrementStock_failure_keeps_db:
  "\<not> success (snd (incrementStock db batch)) \<Longrightarrow> fst (incrementStock db batch) = db"
  by (auto simp: incrementStock_def incrementTransaction_def Let_def
           split: sum.splits prod.splits if_splits)

lemma decrementStock_success_effect:
  assumes "success (snd (decrementStock db batch))"
  shows "fst (decrementStock db batch) = adjustStock db (\<lambda>i. - requestedFor i batch)"
proof -
  from assms obtain db' upd where
    loop: "decrementLoop (productMap db (map productId batch)) batch (db, [], []) = Inr (db', upd, [])"
    and res: "fst (decrementStock db batch) = db'"
    by (auto simp: decrementStock_def decrementTransaction_def transactionFailure_def Let_def
             split: sum.splits prod.splits if_splits)
  from decrementLoop_effect[OF loop] res show ?thesis by simp
qed

lemma incrementStock_success_effect:
  assumes "success (snd (incrementStock db batch))"
  shows "fst (incrementStock db batch) = adjustStock db (\<lambda>i. requestedFor i batch)"
proof -
  from assms obtain db' upd where
    loop: "incrementLoop (productMap db (map productId batch)) batch (db, [], []) = (db', upd, [])"
    and res: "fst (incrementStock db batch) = db'"
    by (auto simp: incrementStock_def incrementTransaction_def transactionFailure_def Let_def
             split: sum.splits prod.splits if_splits)
  from incrementLoop_effect[OF loop] res show ?thesis by simp
qed

lemma decrementStock_invalid:
  "\<not> isValid (validateStock db batch) \<Longrightarrow>
   decrementStock db batch = (db, transactionFailure ''Validacion de stock fallida'')"
  by (simp add: decrementStock_def decrementTransaction_def Let_def)

text \<open>
  A batch that names a product twice passes the validation item by item; the level the
  second update returns is negative, the callback throws and nothing is committed.
\<close>

lemma duplicate_items_roll_back:
  "decrementStock (sampleProducts 3 True)
     [\<lparr>productId = productX, quantity = 2\<rparr>, \<lparr>productId = productX, quantity = 2\<rparr>] =
   (sampleProducts 3 True, transactionFailure ''Stock negativo resultante para Tornillo'')"
  by (simp add: decrementStock_def decrementTransaction_def validateStock_def productMap_def
        Product_validateStock_def sampleProducts_def findByIdAndUpdate_inc_def Let_def)

text \<open>
  \<open>decrementStock\<close> never commits a negative stock level, and neither does
  \<open>incrementStock\<close> on a batch of non-negative quantities.
\<close>

lemma decrementStock_nonNegative:
  assumes "nonNegative db"
  shows "nonNegative (fst (decrementStock db batch))"
proof (cases "decrementTransaction db batch")
  case (Inl msg)
  with assms show ?thesis by (simp add: decrementStock_def)
next
  case (Inr r)
  then obtain db' upd errs where
    "decrementLoop (productMap db (map productId batch)) batch (db, [], []) = Inr (db', upd, errs)"
    and "fst r = db'"
    by (auto simp: decrementTransaction_def Let_def split: sum.splits prod.splits if_splits)
  with decrementLoop_nonNegative[OF assms] Inr show ?thesis
    by (auto simp: decrementStock_def split: prod.splits)
qed

lemma requestedFor_nonneg: "list_all (\<lambda>it. 0 \<le> quantity it) batch \<Longrightarrow> 0 \<le> requestedFor i batch"
  by (induction batch) auto

lemma incrementStock_nonNegative:
  assumes "nonNegative db" "list_all (\<lambda>it. 0 \<le> quantity it) batch"
  shows "nonNegative (fst (incrementStock db batch))"
proof (cases "success (snd (incrementStock db batch))")
  case True
  from incrementStock_success_effect[OF True] assms requestedFor_nonneg[OF assms(2)] show ?thesis
    by (fastforce simp: nonNegative_def adjustStock_def)
next
  case False
  from incrementStock_failure_keeps_db[OF False] assms show ?thesis by simp
qed

lemma runLedger_nonNegative:
  "nonNegative db \<Longrightarrow> nonNegativeIncrements cs \<Longrightarrow> nonNegative (runLedger db cs)"
proof (induction cs arbitrary: db)
  case Nil
  then show ?case by simp
next
  case (Cons c cs)
  then show ?case
    by (cases c) (auto intro: decrementStock_nonNegative incrementStock_nonNegative)
qed

text \<open>
  Conservation over a run of calls: the stock at the start minus the stock at the end is
  what the successful calls decremented minus what they incremented.
\<close>

lemma stockOf_adjustStock:
  "stockOf (adjustStock db d) i = (if db i = None then 0 else stockOf db i + d i)"
  by (auto simp: stockOf_def adjustStock_def split: option.splits)

lemma adjustStock_None_iff [simp]: "adjustStock db d i = None \<longleftrightarrow> db i = None"
  by (simp add: adjustStock_def)

lemma ledgerCall_dom: "fst (ledgerCall db c) i = None \<longleftrightarrow> db i = None"
proof (cases c)
  case (Decrement batch)
  show ?thesis
  proof (cases "success (snd (decrementStock db batch))")
    case True
    from decrementStock_success_effect[OF True] Decrement show ?thesis by simp
  next
    case False
    from decrementStock_failure_keeps_db[OF False] Decrement show ?thesis by simp
  qed
next
  case (Increment batch)
  show ?thesis
  proof (cases "success (snd (incrementStock db batch))")
    case True
    from incrementStock_success_effect[OF True] Increment show ?thesis by simp
  next
    case False
    from incrementStock_failure_keeps_db[OF False] Increment show ?thesis by simp
  qed
qed

lemma runLedger_conservation:
  "db i \<noteq> None \<Longrightarrow> stockOf db i - stockOf (runLedger db cs) i = netDecremented i db cs"
proof (induction cs arbitrary: db)
  case Nil
  then show ?case by simp
next
  case (Cons c cs)
  have dom: "fst (ledgerCall db c) i \<noteq> None" using Cons.prems by (simp add: ledgerCall_dom)
  note IH = Cons.IH[of "fst (ledgerCall db c)", OF dom]
  show ?case
  proof (cases c)
    case (Decrement batch)
    show ?thesis
    proof (cases "success (snd (decrementStock db batch))")
      case True
      from decrementStock_success_effect[OF True] IH Decrement Cons.prems True show ?thesis
        by (simp add: stockOf_adjustStock)
    next
      case False
      from decrementStock_failure_keeps_db[OF False] IH Decrement False show ?thesis by simp
    qed
  next
    case (Increment batch)
    show ?thesis
    proof (cases "success (snd (incrementStock db batch))")
      case True
      from incrementStock_success_effect[OF True] IH Increment Cons.prems True show ?thesis
        by (simp add: stockOf_adjustStock)
    next
      case False
      from incrementStock_failure_keeps_db[OF False] IH Increment False show ?thesis by simp
    qed
  qed
qed

text \<open>
  C2.  Decrement is all-or-nothing and reports, per failing item, the product with the
  quantity requested and the quantity available, as Validate does.  At stock 3 and a
  request of 5 the code keeps the stock at 3 and fails, but the report it returns is the
  single entry of the \<open>catch\<close> block, for the product id \<open>general\<close> and without the
  quantities; the per-item entry (requested 5, available 3) is only what Validate returns.
\<close>

theorem decrement_failure_report:
  "validation_errors (validateStock (sampleProducts 3 True) [\<lparr>productId = productX, quantity = 5\<rparr>]) =
     [\<lparr>err_productId = productX, err_productName = ''Tornillo'', requested = 5, available = 3\<rparr>] \<and>
   decrementStock (sampleProducts 3 True) [\<lparr>productId = productX, quantity = 5\<rparr>] =
     (sampleProducts 3 True,
      \<lparr>success = False, message = ''Error en la transaccion de stock'',
       errors = Some [\<lparr>op_productId = ''general'', op_productName = None,
                       error = ''Validacion de stock fallida'',
                       op_requested = None, op_available = None\<rparr>],
       updatedProducts = None\<rparr>)"
  by (simp add: decrementStock_def decrementTransaction_def validateStock_def productMap_def
        Product_validateStock_def sampleProducts_def transactionFailure_def Let_def)


lemma validateItems_missing:
  "it \<in> set batch \<Longrightarrow> pm (productId it) = None \<Longrightarrow>
   \<lparr>err_productId = productId it, err_productName = ''Producto no encontrado'',
    requested = quantity it, available = 0\<rparr> \<in> set (validateItems pm batch)"
  by (induction batch) (auto split: option.splits)

lemma incrementLoop_missing:
  "it \<in> set batch \<Longrightarrow> pm (productId it) = None \<Longrightarrow>
   incrementLoop pm batch (db, upd, errs) = (db', upd', errs') \<Longrightarrow> errs' \<noteq> []"
proof (induction batch arbitrary: db upd errs)
  case Nil
  then show ?case by simp
next
  case (Cons item batch)
  show ?case
  proof (cases "it = item")
    case True
    with Cons.prems show ?thesis by (auto dest: incrementLoop_errs_grow)
  next
    case False
    with Cons.prems have "it \<in> set batch" by simp
    from Cons.IH[OF this Cons.prems(2)] Cons.prems(3) show ?thesis
      by (auto simp: findByIdAndUpdate_inc_def split: option.splits prod.splits)
  qed
qed

lemma productMap_inactive:
  "db i = Some p \<Longrightarrow> \<not> isActive p \<Longrightarrow> productMap db ids i = None"
  by (simp add: productMap_def)

text \<open>
  C10.  The ledger only resolves active products.  A batch with an item whose product is
  stored but inactive: Validate reports the item as not found (available 0), and
  Decrement and Increment fail and leave every product as it was, whatever the stock of
  the inactive product.
\<close>

theorem inactive_product_not_found:
  assumes "it \<in> set batch" and "db (productId it) = Some p" and "\<not> isActive p"
  shows "\<lparr>err_productId = productId it, err_productName = ''Producto no encontrado'',
          requested = quantity it, available = 0\<rparr>
           \<in> set (validation_errors (validateStock db batch)) \<and>
         \<not> isValid (validateStock db batch) \<and>
         decrementStock db batch = (db, transactionFailure ''Validacion de stock fallida'') \<and>
         incrementStock db batch = (db, transactionFailure ''Error en incremento de stock'')"
proof -
  let ?pm = "productMap db (map productId batch)"
  from assms have none: "?pm (productId it) = None" by (simp add: productMap_inactive)
  from validateItems_missing[of it batch ?pm, OF assms(1) none]
  have e: "\<lparr>err_productId = productId it, err_productName = ''Producto no encontrado'',
          requested = quantity it, available = 0\<rparr>
           \<in> set (validation_errors (validateStock db batch))"
    by (simp add: validateStock_def Let_def)
  then have v: "\<not> isValid (validateStock db batch)"
    by (auto simp: validateStock_def Let_def)
  from v have d: "decrementStock db batch = (db, transactionFailure ''Validacion de stock fallida'')"
    by (simp add: decrementStock_def decrementTransaction_def Let_def)
  obtain db' upd' errs' where l: "incrementLoop ?pm batch (db, [], []) = (db', upd', errs')"
    by (cases "incrementLoop ?pm batch (db, [], [])") auto
  from incrementLoop_missing[of it batch ?pm, OF assms(1) none l] l
  have "incrementStock db batch = (db, transactionFailure ''Error en incremento de stock'')"
    by (simp add: incrementStock_def incrementTransaction_def)
  with e v d show ?thesis by simp
qed

theorem inactive_product_not_found_witness:
  "sampleProducts 10 False productX = Some \<lparr>name = ''Tornillo'', stock = 10, isActive = False\<rparr> \<and>
   \<lparr>err_productId = productX, err_productName = ''Producto no encontrado'',
    requested = 1, available = 0\<rparr>
     \<in> set (validation_errors (validateStock (sampleProducts 10 False)
                                   [\<lparr>productId = productX, quantity = 1\<rparr>])) \<and>
   decrementStock (sampleProducts 10 False) [\<lparr>productId = productX, quantity = 1\<rparr>] =
     (sampleProducts 10 False, transactionFailure ''Validacion de stock fallida'') \<and>
   incrementStock (sampleProducts 10 False) [\<lparr>productId = productX, quantity = 1\<rparr>] =
     (sampleProducts 10 False, transactionFailure ''Error en incremento de stock'')"
proof -
  have h1: "\<lparr>productId = productX, quantity = 1\<rparr> \<in> set [\<lparr>productId = productX, quantity = 1\<rparr>]"
    by simp
  have h2: "sampleProducts 10 False (productId \<lparr>productId = productX, quantity = 1\<rparr>) =
              Some \<lparr>name = ''Tornillo'', stock = 10, isActive = False\<rparr>"
    by (simp add: sampleProducts_def)
  have h3: "\<not> isActive \<lparr>name = ''Tornillo'', stock = 10, isActive = False\<rparr>"
    by simp
  from inactive_product_not_found
         [of "\<lparr>productId = productX, quantity = 1\<rparr>" "[\<lparr>productId = productX, quantity = 1\<rparr>]"
             "sampleProducts 10 False" "\<lparr>name = ''Tornillo'', stock = 10, isActive = False\<rparr>",
          OF h1 h2 h3] h2
  show ?thesis by simp
qed

section \<open>Properties of quotes\<close>

text \<open>
  \<open>spec_round2\<close> is half-up rounding to two decimals: a whole number of hundredths, at
  most half a hundredth from \<open>x\<close>, the upper one on a tie.
\<close>

lemma spec_round2_half_up:
  "(\<exists>n::int. spec_round2 x = of_int n / 100) \<and>
   spec_round2 x - 1 / 200 \<le> x \<and> x < spec_round2 x + 1 / 200"
proof -
  define n where "n = \<lfloor>x * 100\<rfloor>"
  have lo: "of_int n \<le> x * 100" and hi: "x * 100 < of_int n + 1"
    unfolding n_def by linarith+
  show ?thesis
  proof (cases "x * 100 - of_int n \<ge> 1 / 2")
    case True
    then have r: "spec_round2 x = of_int (n + 1) / 100"
      by (simp add: spec_round2_def n_def Let_def)
    from True lo hi have "spec_round2 x - 1 / 200 \<le> x \<and> x < spec_round2 x + 1 / 200"
      unfolding r by (simp add: field_simps)
    with r show ?thesis by blast
  next
    case False
    then have r: "spec_round2 x = of_int n / 100"
      by (simp add: spec_round2_def n_def Let_def)
    from False lo hi have "spec_round2 x - 1 / 200 \<le> x \<and> x < spec_round2 x + 1 / 200"
      unfolding r by (simp add: field_simps)
    with r show ?thesis by blast
  qed
qed

lemma reduceItems_sum:
  "fst (reduceItems acc ls) = acc + spec_subtotal ls"
  by (induction ls arbitrary: acc) (simp_all add: spec_subtotal_def Let_def case_prod_beta)

lemma Math_round_spec: "Math_round (x * 100) / 100 = spec_round2 x"
proof -
  define n where "n = \<lfloor>x * 100\<rfloor>"
  show ?thesis
  proof (cases "x * 100 - of_int n \<ge> 1 / 2")
    case True
    have "\<lfloor>x * 100 + 1 / 2\<rfloor> = n + 1"
      unfolding n_def using True n_def by linarith
    with True show ?thesis by (simp add: Math_round_def spec_round2_def n_def Let_def)
  next
    case False
    have "\<lfloor>x * 100 + 1 / 2\<rfloor> = n"
      unfolding n_def using False n_def by linarith
    with False show ?thesis by (simp add: Math_round_def spec_round2_def n_def Let_def)
  qed
qed

text \<open>
  The totals of a quote in exact arithmetic: the subtotal is the sum of price times
  quantity over the lines, the total is the subtotal times (1 - discount/100) times
  (1 + tax/100), and both are rounded half-up to two decimals, only at the end.  One line
  of price 100 and quantity 2 with discount 10 and tax 21 gives subtotal 200 and total
  217.80.  The source computes in IEEE-754 doubles, where \<open>Math.round(x * 100) / 100\<close>
  follows this rounding only up to the error of \<open>x * 100\<close>; that error is not part of
  this model, so the statement is about the algorithm and not about the doubles.
\<close>

lemma calculateTotals_exact:
  "subtotal (calculateTotals q) = spec_round2 (spec_subtotal (items q)) \<and>
   total (calculateTotals q) = spec_round2 (spec_total (items q) (discount q) (tax q)) \<and>
   subtotal (calculateTotals draftQuote) = 200 \<and>
   total (calculateTotals draftQuote) = 21780 / 100"
proof -
  obtain s its where r: "reduceItems 0 (items q) = (s, its)" by (cases "reduceItems 0 (items q)")
  with reduceItems_sum[of 0 "items q"] have s: "s = spec_subtotal (items q)" by simp
  have alg: "s - s * discount q / 100 + (s - s * discount q / 100) * tax q / 100
             = s * (1 - discount q / 100) * (1 + tax q / 100)"
    by (simp add: field_simps)
  have general: "subtotal (calculateTotals q) = spec_round2 (spec_subtotal (items q)) \<and>
      total (calculateTotals q) = spec_round2 (spec_total (items q) (discount q) (tax q))"
    using r s alg
    by (simp add: calculateTotals_def Let_def Math_round_spec spec_total_def spec_afterDiscount_def)
  have example: "subtotal (calculateTotals draftQuote) = 200 \<and>
      total (calculateTotals draftQuote) = 21780 / 100"
    by code_simp
  from general example show ?thesis by simp
qed

lemma expire_none_left:
  "filter (\<lambda>q. status q = QuotePending \<and> expiresAt q \<le> now)
     (map (\<lambda>q. if status q = QuotePending \<and> expiresAt q \<le> now
                then q\<lparr>status := QuoteExpired\<rparr> else q) qs) = []"
  by (induction qs) auto

lemma expire_map_idem:
  "map (\<lambda>q. if status q = QuotePending \<and> expiresAt q \<le> now
                then q\<lparr>status := QuoteExpired\<rparr> else q)
     (map (\<lambda>q. if status q = QuotePending \<and> expiresAt q \<le> now
                then q\<lparr>status := QuoteExpired\<rparr> else q) qs)
   = map (\<lambda>q. if status q = QuotePending \<and> expiresAt q \<le> now
                then q\<lparr>status := QuoteExpired\<rparr> else q) qs"
  by (induction qs) auto

lemma expire_idem:
  "expireOldQuotes now (fst (expireOldQuotes now qs)) = (fst (expireOldQuotes now qs), 0)"
  by (simp add: expireOldQuotes_def expire_none_left expire_map_idem)

text \<open>
  C8.  \<open>expireOldQuotes\<close> turns every pending quote whose expiration instant is at or
  before \<open>now\<close> into an expired one, leaves every other quote as it is, and a second run
  changes nothing (it modifies no document).
\<close>

theorem expireOldQuotes_spec:
  "length (fst (expireOldQuotes now qs)) = length qs \<and>
   (\<forall>i < length qs.
      fst (expireOldQuotes now qs) ! i =
        (if status (qs ! i) = QuotePending \<and> expiresAt (qs ! i) \<le> now
         then (qs ! i)\<lparr>status := QuoteExpired\<rparr> else qs ! i)) \<and>
   expireOldQuotes now (fst (expireOldQuotes now qs)) = (fst (expireOldQuotes now qs), 0)"
  using expire_idem[of now qs] by (simp add: expireOldQuotes_def)

theorem expireOldQuotes_spec_witness:
  "fst (expireOldQuotes 3000 [sampleQuote QuotePending, sampleQuote QuotePaid]) =
     [(sampleQuote QuotePending)\<lparr>status := QuoteExpired\<rparr>, sampleQuote QuotePaid] \<and>
   expireOldQuotes 3000 (fst (expireOldQuotes 3000 [sampleQuote QuotePending, sampleQuote QuotePaid])) =
     (fst (expireOldQuotes 3000 [sampleQuote QuotePending, sampleQuote QuotePaid]), 0)"
  using expireOldQuotes_spec [of 3000 "[sampleQuote QuotePending, sampleQuote QuotePaid]"]
  by (simp add: expireOldQuotes_def sampleQuote_def)

text \<open>Cancel only leaves \<open>pending\<close>: from any other status it answers 400 and writes nothing.\<close>

lemma cancelQuote_rejects_non_pending:
  assumes "find (\<lambda>q. quote_id q = qid \<and>
                     (case user of
                        Some u \<Rightarrow> if role u = seller then createdBy q = user_id u else True
                      | None \<Rightarrow> True)) qs = Some q"
    and "status q \<noteq> QuotePending"
  shows "cancelQuote now user qid qs =
           Inr (BadRequestResponse
                  (''No se puede cancelar un presupuesto en estado '' @ statusString (status q)), qs)"
  using assms by (simp add: cancelQuote_def)

section \<open>Properties of payments and notifications\<close>

lemma insertOne_distinct:
  "distinct (map quote db) \<Longrightarrow> insertOne db p = Inr db' \<Longrightarrow> distinct (map quote db')"
  by (fastforce simp: insertOne_def list_ex_iff split: if_splits)

lemma preSave_paidAt_quote [simp]: "quote (preSave_paidAt now l p) = quote p"
  by (simp add: preSave_paidAt_def)

lemma Payment_create_distinct:
  "distinct (map quote db) \<Longrightarrow> Payment_create now seen db p = Inr db' \<Longrightarrow> distinct (map quote db')"
  by (auto simp: Payment_create_def split: option.splits dest: insertOne_distinct)

lemma createAll_distinct:
  "distinct (map quote db) \<Longrightarrow> distinct (map quote (createAll now attempts db))"
proof (induction attempts arbitrary: db)
  case Nil
  then show ?case by simp
next
  case (Cons a attempts)
  obtain seen p where a: "a = (seen, p)" by (cases a)
  show ?case
  proof (cases "Payment_create now seen db p")
    case (Inl e)
    with a Cons show ?thesis by simp
  next
    case (Inr db')
    from Payment_create_distinct[OF Cons.prems Inr] have "distinct (map quote db')" .
    from Cons.IH[OF this] a Inr show ?thesis by simp
  qed
qed

text \<open>
  C6.  At most one payment ever references a quote.  Whatever creation attempts run, and
  whatever each one's pre-save query saw, the collection holds at most one payment per
  quote; once a payment of the quote is stored, a further creation fails even when its
  query missed that payment (the unique index refuses the insert), and it fails with
  the message of the pre-save check when the query sees the collection as it is.
\<close>

theorem one_payment_per_quote:
  "distinct (map quote (createAll now attempts [])) \<and>
   (\<forall>d \<in> set db. quote d = quote p \<longrightarrow>
      (\<forall>seen. \<exists>e. Payment_create now seen db p = Inl e) \<and>
      (payment_id d \<noteq> payment_id p \<longrightarrow>
         Payment_create now db db p = Inl ''Ya existe un pago para este presupuesto''))"
proof (intro conjI ballI impI allI)
  show "distinct (map quote (createAll now attempts []))"
    by (rule createAll_distinct) simp
next
  fix d seen
  assume d: "d \<in> set db" "quote d = quote p"
  then have "list_ex (\<lambda>d. payment_id d = payment_id (preSave_paidAt now None p) \<or> quote d = quote p \<or>
                        mercadopagoId d = mercadopagoId (preSave_paidAt now None p) \<or>
                        externalReference d = externalReference (preSave_paidAt now None p)) db"
    by (auto simp: list_ex_iff)
  then show "\<exists>e. Payment_create now seen db p = Inl e"
    by (auto simp: Payment_create_def insertOne_def split: option.splits)
next
  fix d
  assume d: "d \<in> set db" "quote d = quote p" "payment_id d \<noteq> payment_id p"
  then have "find (\<lambda>d. quote d = quote p \<and> payment_id d \<noteq> payment_id p) db \<noteq> None"
    by (auto simp: find_None_iff)
  then show "Payment_create now db db p = Inl ''Ya existe un pago para este presupuesto''"
    by (auto simp: Payment_create_def preSave_uniqueQuote_def split: option.splits)
qed

theorem one_payment_per_quote_witness:
  "quote secondPayment = quote samplePayment \<and>
   createAll 1000 [([], samplePayment), ([], secondPayment)] [] = [samplePayment] \<and>
   (\<exists>e. Payment_create 1000 [] [samplePayment] secondPayment = Inl e) \<and>
   Payment_create 1000 [samplePayment] [samplePayment] secondPayment =
     Inl ''Ya existe un pago para este presupuesto''"
proof -
  have h1: "quote samplePayment = quote secondPayment"
    by (simp add: secondPayment_def)
  have h2: "payment_id samplePayment \<noteq> payment_id secondPayment"
    by (simp add: secondPayment_def samplePayment_def)
  have h3: "createAll 1000 [([], samplePayment), ([], secondPayment)] [] = [samplePayment]"
    by code_simp
  from one_payment_per_quote [of 1000 "[([], samplePayment), ([], secondPayment)]"
         "[samplePayment]" secondPayment] h1 h2 h3
  show ?thesis by simp
qed



lemma status_calculateTotals [simp]: "status (calculateTotals q) = status q"
  by (simp add: calculateTotals_def Let_def case_prod_beta)

lemma quote_id_calculateTotals [simp]: "quote_id (calculateTotals q) = quote_id q"
  by (simp add: calculateTotals_def Let_def case_prod_beta)



text \<open>
  C1.  Replaying an approved notification leaves the state of a single delivery, the
  stock decremented once.  The code runs the whole \<open>approved\<close> branch on every delivery:
  with stock 5 and a quote for 2 units, one delivery leaves 3 and a second one leaves 1.
\<close>

theorem replayed_approval_decrements_twice:
  "map_sum id (\<lambda>s. (stockOf (products s) productX, map status (quotes s),
                     map payment_status (payments s)))
     (deliver 1000 approvedNotification 1 (sampleStore 5 QuotePending)) =
     Inr (3, [QuotePaid], [PaymentApproved]) \<and>
   map_sum id (\<lambda>s. (stockOf (products s) productX, map status (quotes s),
                     map payment_status (payments s)))
     (deliver 1000 approvedNotification 2 (sampleStore 5 QuotePending)) =
     Inr (1, [QuotePaid], [PaymentApproved])"
  by code_simp

text \<open>
  C5.  A quote only leaves \<open>pending\<close>, and an approved payment marks it paid only from
  \<open>pending\<close>.  The \<open>approved\<close> branch sets the status without reading it: a cancelled
  quote whose payment is approved afterwards becomes paid, and its stock is taken.
\<close>

theorem approval_pays_cancelled_quote:
  "map status (quotes (sampleStore 5 QuoteCancelled)) = [QuoteCancelled] \<and>
   map_sum id (\<lambda>s. (map status (quotes s), stockOf (products s) productX))
     (handlePaymentWebhook 1000 approvedNotification (sampleStore 5 QuoteCancelled)) =
     Inr ([QuotePaid], 3)"
  by code_simp

section \<open>Properties of the request validation\<close>

lemma validationResult_chain:
  "c \<in> set createQuoteValidation \<Longrightarrow> e \<in> set (runChain lib b c) \<Longrightarrow>
   e \<in> set (validationResult lib b)"
  by (auto simp: validationResult_def)

lemma generated_chain:
  "body [[''expiresAt''], [''quoteNumber''], [''_id''], [''createdAt''], [''updatedAt'']]
        [NotNext, V Exists,
         WithMessage ''Este campo se genera automaticamente, no debe enviarse'']
     \<in> set createQuoteValidation"
  by (simp add: createQuoteValidation_def)

text \<open>
  C9 as the code has it.  A quote-creation request that carries \<open>expiresAt\<close>,
  \<open>quoteNumber\<close>, \<open>_id\<close>, \<open>createdAt\<close> or \<open>updatedAt\<close> is rejected with status 400,
  whatever the rest of the request and whatever the library's validators answer.
\<close>

theorem generated_fields_rejected:
  assumes "f \<in> set generatedFields" and "getProp b f \<noteq> None"
  shows "([f], ''Este campo se genera automaticamente, no debe enviarse'') \<in> set (validationResult lib b) \<and>
         handleValidationErrors (validationResult lib b) = Some (400, ''Datos de entrada invalidos'')"
proof -
  from assms(2) obtain members v where b: "b = JObj members" and v: "map_of members f = Some v"
    by (cases b) auto
  have "([f], ''Este campo se genera automaticamente, no debe enviarse'')
          \<in> set (runChain lib b (body [[''expiresAt''], [''quoteNumber''], [''_id''], [''createdAt''], [''updatedAt'']]
        [NotNext, V Exists,
         WithMessage ''Este campo se genera automaticamente, no debe enviarse'']))"
    using assms(1) b v
    by (auto simp: runChain_def body_def isOptional_def runValidation_def generatedFields_def)
  from validationResult_chain[OF generated_chain this]
  show ?thesis by (auto simp: handleValidationErrors_def)
qed

theorem generated_fields_rejected_witness:
  "''quoteNumber'' \<in> set generatedFields \<and>
   getProp (sampleBody [(''quoteNumber'', JStr ''QT-20240115-0001'')]) ''quoteNumber'' =
     Some (JStr ''QT-20240115-0001'') \<and>
   handleValidationErrors
     (validationResult rejectingLibrary (sampleBody [(''quoteNumber'', JStr ''QT-20240115-0001'')])) =
     Some (400, ''Datos de entrada invalidos'')"
proof -
  have h1: "''quoteNumber'' \<in> set generatedFields"
    by (simp add: generatedFields_def)
  have h2: "getProp (sampleBody [(''quoteNumber'', JStr ''QT-20240115-0001'')]) ''quoteNumber'' =
              Some (JStr ''QT-20240115-0001'')"
    by (simp add: sampleBody_def)
  have h3: "getProp (sampleBody [(''quoteNumber'', JStr ''QT-20240115-0001'')]) ''quoteNumber'' \<noteq> None"
    using h2 by simp
  from generated_fields_rejected [OF h1 h3, of rejectingLibrary] h1 h2
  show ?thesis by simp
qed

text \<open>An item that carries \<open>product\<close>, \<open>productSnapshot\<close> or \<open>subtotal\<close> is rejected too.\<close>

lemma item_chain:
  "f \<in> set itemFields \<Longrightarrow>
   \<exists>m. body [[''items'', ''*'', f]] [NotNext, V Exists, WithMessage m] \<in> set createQuoteValidation"
  by (auto simp: createQuoteValidation_def itemFields_def)

lemma item_fields_rejected:
  assumes "f \<in> set itemFields"
    and "getProp b ''items'' = Some (JArr elems)"
    and "e \<in> set elems" and "getProp e f \<noteq> None"
  shows "handleValidationErrors (validationResult lib b) = Some (400, ''Datos de entrada invalidos'')"
proof -
  from item_chain[OF assms(1)] obtain m where
    c: "body [[''items'', ''*'', f]] [NotNext, V Exists, WithMessage m] \<in> set createQuoteValidation"
    by blast
  from assms(2) obtain members where b: "b = JObj members" and i: "map_of members ''items'' = Some (JArr elems)"
    by (cases b) auto
  from assms(4) obtain em v where e: "e = JObj em" and v: "map_of em f = Some v"
    by (cases e) auto
  from assms(1) have star: "f \<noteq> ''*''" by (auto simp: itemFields_def)
  have "([''items'', ''*'', f], m)
          \<in> set (runChain lib b (body [[''items'', ''*'', f]] [NotNext, V Exists, WithMessage m]))"
    using b i e v star assms(3)
    by (auto simp: runChain_def body_def isOptional_def runValidation_def intro!: bexI[of _ e])
  from validationResult_chain[OF c this]
  show ?thesis by (auto simp: handleValidationErrors_def)
qed

text \<open>
  C9 as the specification words it also has the computed totals rejected.  No chain
  names \<open>subtotal\<close> or \<open>total\<close>: a request that is otherwise valid and carries both
  passes the validation.
\<close>

theorem supplied_totals_accepted:
  "getProp (sampleBody [(''subtotal'', JNum ''1''), (''total'', JNum ''1'')]) ''subtotal'' = Some (JNum ''1'') \<and>
   getProp (sampleBody [(''subtotal'', JNum ''1''), (''total'', JNum ''1'')]) ''total'' = Some (JNum ''1'') \<and>
   handleValidationErrors
     (validationResult rejectingLibrary (sampleBody [(''subtotal'', JNum ''1''), (''total'', JNum ''1'')])) =
     None"
  by code_simp

end
